theory Spec2Isabelle
  imports Main
begin

section \<open>Python values read from the backing file\<close>

text \<open>
  A Python \<open>str\<close> is a sequence of Unicode code points, so it is modelled as a list of
  natural numbers; \<open>str ''abc''\<close> writes an ASCII literal. Strings are taken to be free of
  lone surrogates, so that writing them to a UTF-8 file succeeds.
\<close>

type_synonym pystr = "nat list"

definition str :: "string \<Rightarrow> pystr" where
  "str s = map of_char s"

text \<open>
  What \<open>json.load\<close> returns: \<open>None\<close>, a bool, an int, a str, a list or a dict whose keys
  are strs. A dict keeps its keys in insertion order, so it is an association list.
  JSON numbers with a fraction or an exponent (Python floats) are not modelled.
\<close>

datatype json =
    JNull
  | JBool bool
  | JInt int
  | JStr pystr
  | JArr "json list"
  | JObj "(pystr \<times> json) list"

text \<open>The exceptions that the program can raise on such values and on the file.\<close>

datatype exn = AttributeError | TypeError | KeyError | IndexError | UnicodeDecodeError

text \<open>Truth value testing, as in \<open>if not tweets\<close>.\<close>

fun truthy :: "json \<Rightarrow> bool" where
  "truthy JNull = False"
| "truthy (JBool b) = b"
| "truthy (JInt n) = (n \<noteq> 0)"
| "truthy (JStr s) = (s \<noteq> [])"
| "truthy (JArr xs) = (xs \<noteq> [])"
| "truthy (JObj kvs) = (kvs \<noteq> [])"

text \<open>Python's \<open>==\<close> on these values: \<open>True == 1\<close> and \<open>False == 0\<close> hold, lists are
  compared element by element and dicts key by key, whatever the order of the keys.\<close>

fun py_eq :: "json \<Rightarrow> json \<Rightarrow> bool" where
  "py_eq JNull JNull = True"
| "py_eq (JBool a) (JBool b) = (a = b)"
| "py_eq (JBool a) (JInt n) = ((if a then 1 else 0) = n)"
| "py_eq (JInt n) (JBool a) = (n = (if a then 1 else 0))"
| "py_eq (JInt m) (JInt n) = (m = n)"
| "py_eq (JStr s) (JStr t) = (s = t)"
| "py_eq (JArr xs) (JArr ys) = list_all2 py_eq xs ys"
| "py_eq (JObj kvs) (JObj kws) =
     (length kvs = length kws \<and>
      list_all (\<lambda>(k, v). case map_of kws k of None \<Rightarrow> False | Some w \<Rightarrow> py_eq v w) kvs)"
| "py_eq _ _ = False"

text \<open>\<open>a in b\<close> for two strs: \<open>a\<close> occurs in \<open>b\<close> as a contiguous run.\<close>

fun substring :: "pystr \<Rightarrow> pystr \<Rightarrow> bool" where
  "substring xs [] = (xs = [])"
| "substring xs (y # ys) = (take (length xs) (y # ys) = xs \<or> substring xs ys)"

text \<open>Iteration, as in \<open>for t in tweets\<close>: a list gives its elements, a str its
  characters as one-character strs, a dict its keys; the other values are not iterable.\<close>

fun py_iter :: "json \<Rightarrow> exn + json list" where
  "py_iter (JArr xs) = Inr xs"
| "py_iter (JStr s) = Inr (map (\<lambda>c. JStr [c]) s)"
| "py_iter (JObj kvs) = Inr (map (\<lambda>kv. JStr (fst kv)) kvs)"
| "py_iter _ = Inl TypeError"

text \<open>Membership, \<open>t in c\<close>: equality with an element of a list; substring test on a
  str, which refuses a left operand that is not a str; key lookup in a dict, which has to
  hash \<open>t\<close> and so refuses a list or a dict; the other values are not containers.\<close>

fun py_in :: "json \<Rightarrow> json \<Rightarrow> exn + bool" where
  "py_in t (JArr xs) = Inr (list_ex (py_eq t) xs)"
| "py_in (JStr a) (JStr s) = Inr (substring a s)"
| "py_in _ (JStr s) = Inl TypeError"
| "py_in (JArr _) (JObj kvs) = Inl TypeError"
| "py_in (JObj _) (JObj kvs) = Inl TypeError"
| "py_in (JStr k) (JObj kvs) = Inr (k \<in> set (map fst kvs))"
| "py_in _ (JObj kvs) = Inr False"
| "py_in _ _ = Inl TypeError"

text \<open>\<open>d.get(key, default)\<close> and \<open>d[key] = value\<close> on a dict: an existing key keeps its
  place, a new key goes to the end.\<close>

definition dict_get :: "(pystr \<times> json) list \<Rightarrow> pystr \<Rightarrow> json \<Rightarrow> json" where
  "dict_get kvs key dflt = (case map_of kvs key of None \<Rightarrow> dflt | Some v \<Rightarrow> v)"

fun dict_set :: "pystr \<Rightarrow> json \<Rightarrow> (pystr \<times> json) list \<Rightarrow> (pystr \<times> json) list" where
  "dict_set key v [] = [(key, v)]"
| "dict_set key v (kv # kvs) =
     (if fst kv = key then (key, v) # kvs else kv # dict_set key v kvs)"

text \<open>\<open>data.get(...)\<close> and \<open>data[key] = value\<close> on whatever \<open>json.load\<close> returned: only a
  dict has \<open>get\<close>, and only a dict accepts a str as subscript.\<close>

fun py_get :: "json \<Rightarrow> pystr \<Rightarrow> json \<Rightarrow> exn + json" where
  "py_get (JObj kvs) key dflt = Inr (dict_get kvs key dflt)"
| "py_get _ key dflt = Inl AttributeError"

fun py_setitem :: "json \<Rightarrow> pystr \<Rightarrow> json \<Rightarrow> exn + json" where
  "py_setitem (JObj kvs) key v = Inr (JObj (dict_set key v kvs))"
| "py_setitem _ key v = Inl TypeError"

text \<open>\<open>used_tweets.append(x)\<close>: only a list has \<open>append\<close>.\<close>

fun py_append :: "json \<Rightarrow> json \<Rightarrow> exn + json" where
  "py_append (JArr xs) x = Inr (JArr (xs @ [x]))"
| "py_append _ x = Inl AttributeError"

text \<open>\<open>random.choice(seq)\<close> returns \<open>seq[k]\<close> for a random \<open>k\<close> below \<open>len(seq)\<close> and
  raises IndexError on an empty sequence. The random source is the number \<open>r\<close>, reduced
  modulo the length. Subscripting a dict of str keys with an int raises KeyError.\<close>

fun choice :: "json \<Rightarrow> nat \<Rightarrow> exn + json" where
  "choice (JArr xs) r = (if xs = [] then Inl IndexError else Inr (xs ! (r mod length xs)))"
| "choice (JStr s) r = (if s = [] then Inl IndexError else Inr (JStr [s ! (r mod length s)]))"
| "choice (JObj kvs) r = (if kvs = [] then Inl IndexError else Inl KeyError)"
| "choice _ r = Inl TypeError"

section \<open>The backing file, the console and the remote service\<close>

text \<open>
  The program works on one file, \<open>tweets.json\<close>. Its content is classified by what
  \<open>open(filename, 'r', encoding='utf-8')\<close> followed by \<open>json.load\<close> does with it: the bytes
  are not UTF-8 (reading raises UnicodeDecodeError), the text is not JSON (JSONDecodeError),
  or it parses to a value. A file that is absent is \<open>None\<close>. Opening, reading and writing
  are taken to succeed otherwise, and \<open>json.dump\<close> followed by \<open>json.load\<close> to give the
  value back.
\<close>

datatype content = Not_utf8 | Not_json | Json json

text \<open>One constructor for each \<open>print\<close> of the source, with the values it formats.\<close>

datatype msg =
    Bot_running pystr
  | Not_found_creating
  | Invalid_json
  | Created_sample
  | Authenticated_as pystr
  | Authentication_failed pystr
  | Tweet_posted json
  | Tweet_id pystr
  | Error_posting pystr
  | Missing_header
  | Missing_var pystr
  | Missing_footer
  | No_tweets_found
  | Resetting
  | Marked_used
  | Failed_to_post

text \<open>What the run does to the outside, in order: a line printed, an attempt to open the
  file for reading, the file written with a value, a call of the remote service.\<close>

datatype event =
    Print msg
  | File_read
  | File_write json
  | Net_get_me
  | Net_create_tweet json

record state =
  backing_file :: "content option"
  trace :: "event list"

definition emit :: "event list \<Rightarrow> state \<Rightarrow> state" where
  "emit es s = s\<lparr>trace := trace s @ es\<rparr>"

text \<open>The five module-level settings, read from the environment when the module loads.\<close>

record credentials =
  API_KEY :: "pystr option"
  API_SECRET :: "pystr option"
  ACCESS_TOKEN :: "pystr option"
  ACCESS_TOKEN_SECRET :: "pystr option"
  BEARER_TOKEN :: "pystr option"

datatype client = Client credentials

text \<open>What \<open>client.create_tweet\<close> and the reading of \<open>response.data['id']\<close> can do: the call
  raises, the call returns but the identifier cannot be read, or both succeed.\<close>

datatype tweet_response = Create_raises pystr | Created_without_id pystr | Created pystr

text \<open>Everything the run takes from outside: the environment, the clock, the random
  source and the answers of the remote service (\<open>Inl\<close> is the text of the exception).\<close>

record world =
  environ :: "pystr \<rightharpoonup> pystr"
  now :: pystr
  rand :: nat
  get_me :: "client \<Rightarrow> pystr + pystr"
  create_tweet :: "client \<Rightarrow> json \<Rightarrow> tweet_response"

definition module_credentials :: "world \<Rightarrow> credentials" where
  "module_credentials w =
     \<lparr>API_KEY = environ w (str ''TWITTER_API_KEY''),
      API_SECRET = environ w (str ''TWITTER_API_SECRET''),
      ACCESS_TOKEN = environ w (str ''TWITTER_ACCESS_TOKEN''),
      ACCESS_TOKEN_SECRET = environ w (str ''TWITTER_ACCESS_TOKEN_SECRET''),
      BEARER_TOKEN = environ w (str ''TWITTER_BEARER_TOKEN'')\<rparr>"

section \<open>The functions of the program\<close>

definition sample_data :: json where
  "sample_data = JObj
     [(str ''tweets'', JArr
        [JStr ([240, 376, 338, 376] @ str '' Starting the day with gratitude! What are you thankful for today?''),
         JStr ([240, 376, 8217, 161] @ str '' Remember: Progress, not perfection. Every small step counts!''),
         JStr ([240, 376, 353, 8364] @ str '' Innovation happens when we dare to think differently.''),
         JStr ([240, 376, 338, 177] @ str '' Growth mindset: Challenges are opportunities in disguise.''),
         JStr ([226, 732, 8226] @ str '' Good morning! May your coffee be strong and your Monday be short.''),
         JStr ([240, 376, 381, 175] @ str '' Focus on what you can control, let go of what you can'' @ [39]
               @ str ''t.''),
         JStr ([240, 376, 8220, 353] @ str '' Learning something new every day keeps the mind sharp!''),
         JStr ([240, 376, 338, 710] @ str '' After every storm comes a rainbow. Keep pushing forward!'')]),
      (str ''used_tweets'', JArr [])]"

definition create_sample_tweets_file :: "state \<Rightarrow> state" where
  "create_sample_tweets_file s =
     emit [File_write sample_data, Print Created_sample] (s\<lparr>backing_file := Some (Json sample_data)\<rparr>)"

text \<open>\<open>load_tweets\<close>: only FileNotFoundError and JSONDecodeError are caught; the error of
  the UTF-8 decoder and the AttributeError of \<open>data.get\<close> on a value that is not a dict
  leave the function.\<close>

definition load_tweets :: "state \<Rightarrow> (exn + json \<times> json) \<times> state" where
  "load_tweets s =
     (let s1 = emit [File_read] s in
      case backing_file s of
        None \<Rightarrow>
          (Inr (JArr [], JArr []), create_sample_tweets_file (emit [Print Not_found_creating] s1))
      | Some Not_utf8 \<Rightarrow> (Inl UnicodeDecodeError, s1)
      | Some Not_json \<Rightarrow> (Inr (JArr [], JArr []), emit [Print Invalid_json] s1)
      | Some (Json data) \<Rightarrow>
          (case py_get data (str ''tweets'') (JArr []) of
             Inl e \<Rightarrow> (Inl e, s1)
           | Inr tweets \<Rightarrow>
               (case py_get data (str ''used_tweets'') (JArr []) of
                  Inl e \<Rightarrow> (Inl e, s1)
                | Inr used_tweets \<Rightarrow> (Inr (tweets, used_tweets), s1))))"

text \<open>\<open>save_used_tweets\<close>: the bare \<open>except\<close> replaces any failure of the read by a fresh
  dict; the assignment and the write are outside the \<open>try\<close>.\<close>

definition save_used_tweets :: "json \<Rightarrow> state \<Rightarrow> (exn + unit) \<times> state" where
  "save_used_tweets used_tweets s =
     (let s1 = emit [File_read] s;
          data = (case backing_file s of
                    Some (Json d) \<Rightarrow> d
                  | _ \<Rightarrow> JObj [(str ''tweets'', JArr []), (str ''used_tweets'', JArr [])])
      in case py_setitem data (str ''used_tweets'') used_tweets of
           Inl e \<Rightarrow> (Inl e, s1)
         | Inr data' \<Rightarrow> (Inr (), emit [File_write data'] (s1\<lparr>backing_file := Some (Json data')\<rparr>)))"

definition authenticate_twitter :: "world \<Rightarrow> state \<Rightarrow> client option \<times> state" where
  "authenticate_twitter w s =
     (let c = Client (module_credentials w); s1 = emit [Net_get_me] s in
      case get_me w c of
        Inr username \<Rightarrow> (Some c, emit [Print (Authenticated_as username)] s1)
      | Inl e \<Rightarrow> (None, emit [Print (Authentication_failed e)] s1))"

definition post_tweet :: "world \<Rightarrow> client \<Rightarrow> json \<Rightarrow> state \<Rightarrow> bool \<times> state" where
  "post_tweet w c tweet_text s =
     (let s1 = emit [Net_create_tweet tweet_text] s in
      case create_tweet w c tweet_text of
        Create_raises e \<Rightarrow> (False, emit [Print (Error_posting e)] s1)
      | Created_without_id e \<Rightarrow>
          (False, emit [Print (Tweet_posted tweet_text), Print (Error_posting e)] s1)
      | Created i \<Rightarrow> (True, emit [Print (Tweet_posted tweet_text), Print (Tweet_id i)] s1))"

subsection \<open>The selection, lines 124 to 134 of \<open>main\<close>\<close>

text \<open>The comprehension \<open>[t for t in tweets if t not in used_tweets]\<close>.\<close>

fun not_in_filter :: "json list \<Rightarrow> json \<Rightarrow> exn + json list" where
  "not_in_filter [] used_tweets = Inr []"
| "not_in_filter (t # ts) used_tweets =
     (case py_in t used_tweets of
        Inl e \<Rightarrow> Inl e
      | Inr b \<Rightarrow>
          (case not_in_filter ts used_tweets of
             Inl e \<Rightarrow> Inl e
           | Inr rest \<Rightarrow> Inr (if b then rest else t # rest)))"

text \<open>The values of \<open>selected_tweet\<close>, \<open>used_tweets\<close> and \<open>available_tweets\<close> after line 134.\<close>

record selection =
  selected_tweet :: json
  used_after :: json
  available_tweets :: json

definition selector :: "json \<Rightarrow> json \<Rightarrow> nat \<Rightarrow> state \<Rightarrow> (exn + selection) \<times> state" where
  "selector tweets used_tweets r s =
     (case py_iter tweets of
        Inl e \<Rightarrow> (Inl e, s)
      | Inr ts \<Rightarrow>
          (case not_in_filter ts used_tweets of
             Inl e \<Rightarrow> (Inl e, s)
           | Inr avail \<Rightarrow>
               (let s1 = (if avail = [] then emit [Print Resetting] s else s);
                    used_tweets1 = (if avail = [] then JArr [] else used_tweets);
                    available = (if avail = [] then tweets else JArr avail)
                in case choice available r of
                     Inl e \<Rightarrow> (Inl e, s1)
                   | Inr t \<Rightarrow>
                       (Inr \<lparr>selected_tweet = t, used_after = used_tweets1,
                             available_tweets = available\<rparr>, s1))))"

subsection \<open>The entry point\<close>

definition required_vars :: "pystr list" where
  "required_vars =
     [str ''TWITTER_API_KEY'', str ''TWITTER_API_SECRET'', str ''TWITTER_ACCESS_TOKEN'',
      str ''TWITTER_ACCESS_TOKEN_SECRET'', str ''TWITTER_BEARER_TOKEN'']"

text \<open>\<open>not os.getenv(var)\<close>: the variable is unset, or set to the empty string.\<close>

definition not_getenv :: "world \<Rightarrow> pystr \<Rightarrow> bool" where
  "not_getenv w var = (case environ w var of None \<Rightarrow> True | Some v \<Rightarrow> v = [])"

text \<open>How a run ends: at one of the \<open>return\<close> statements of \<open>main\<close>, at its last line, or
  with an exception that nothing catches.\<close>

datatype outcome =
    Missing_env
  | No_tweets
  | Auth_failed
  | Post_failed
  | Done
  | Crashed exn

definition main :: "world \<Rightarrow> content option \<Rightarrow> outcome \<times> state" where
  "main w f =
     (let s0 = emit [Print (Bot_running (now w))] \<lparr>backing_file = f, trace = []\<rparr>;
          missing_vars = filter (not_getenv w) required_vars
      in if missing_vars \<noteq> [] then
           (Missing_env,
            emit ([Print Missing_header] @ map (\<lambda>var. Print (Missing_var var)) missing_vars
                  @ [Print Missing_footer]) s0)
         else
           (case load_tweets s0 of
              (Inl e, s1) \<Rightarrow> (Crashed e, s1)
            | (Inr (tweets, used_tweets), s1) \<Rightarrow>
                if \<not> truthy tweets then (No_tweets, emit [Print No_tweets_found] s1)
                else
                  (case selector tweets used_tweets (rand w) s1 of
                     (Inl e, s2) \<Rightarrow> (Crashed e, s2)
                   | (Inr sel, s2) \<Rightarrow>
                       (case authenticate_twitter w s2 of
                          (None, s3) \<Rightarrow> (Auth_failed, s3)
                        | (Some c, s3) \<Rightarrow>
                            (case post_tweet w c (selected_tweet sel) s3 of
                               (False, s4) \<Rightarrow> (Post_failed, emit [Print Failed_to_post] s4)
                             | (True, s4) \<Rightarrow>
                                 (case py_append (used_after sel) (selected_tweet sel) of
                                    Inl e \<Rightarrow> (Crashed e, s4)
                                  | Inr used_tweets2 \<Rightarrow>
                                      (case save_used_tweets used_tweets2 s4 of
                                         (Inl e, s5) \<Rightarrow> (Crashed e, s5)
                                       | (Inr u, s5) \<Rightarrow>
                                           (Done, emit [Print Marked_used] s5))))))))"

text \<open>The part of \<open>main\<close> after the selection, lines 136 to 148, under a name of its
  own: the proofs below show that \<open>main\<close> continues with it.\<close>

definition publish_and_save :: "world \<Rightarrow> selection \<Rightarrow> state \<Rightarrow> outcome \<times> state" where
  "publish_and_save w sel s2 =
     (case authenticate_twitter w s2 of
        (None, s3) \<Rightarrow> (Auth_failed, s3)
      | (Some c, s3) \<Rightarrow>
          (case post_tweet w c (selected_tweet sel) s3 of
             (False, s4) \<Rightarrow> (Post_failed, emit [Print Failed_to_post] s4)
           | (True, s4) \<Rightarrow>
               (case py_append (used_after sel) (selected_tweet sel) of
                  Inl e \<Rightarrow> (Crashed e, s4)
                | Inr used_tweets2 \<Rightarrow>
                    (case save_used_tweets used_tweets2 s4 of
                       (Inl e, s5) \<Rightarrow> (Crashed e, s5)
                     | (Inr u, s5) \<Rightarrow> (Done, emit [Print Marked_used] s5)))))"

subsection \<open>Observations on the file\<close>

text \<open>The top-level field \<open>k\<close> of the file, when the file holds a JSON object that has it.\<close>

definition field :: "content option \<Rightarrow> pystr \<Rightarrow> json option" where
  "field f k = (case f of Some (Json (JObj kvs)) \<Rightarrow> map_of kvs k | _ \<Rightarrow> None)"

subsection \<open>A concrete world for the examples\<close>

definition example_environ :: "pystr \<rightharpoonup> pystr" where
  "example_environ = map_of
     [(str ''TWITTER_API_KEY'', str ''k''), (str ''TWITTER_API_SECRET'', str ''s''),
      (str ''TWITTER_ACCESS_TOKEN'', str ''t''), (str ''TWITTER_ACCESS_TOKEN_SECRET'', str ''u''),
      (str ''TWITTER_BEARER_TOKEN'', str ''b'')]"

definition example_world :: world where
  "example_world =
     \<lparr>environ = example_environ, now = str ''2024-01-01 09:00:00'', rand = 5,
      get_me = (\<lambda>c. Inr (str ''tessa'')),
      create_tweet = (\<lambda>c t. Created (str ''1''))\<rparr>"

definition example_file :: "content option" where
  "example_file = Some (Json (JObj
     [(str ''tweets'', JArr [JStr (str ''A''), JStr (str ''B'')]),
      (str ''note'', JInt 7),
      (str ''used_tweets'', JArr [JStr (str ''A'')])]))"

section \<open>The selection\<close>

text \<open>On a pool and a used set that are lists of strs, membership is equality of strs and
  the comprehension is a filter.\<close>

lemma list_ex_py_eq_str: "list_ex (py_eq (JStr t)) (map JStr used) = (t \<in> set used)"
  by (induction used) auto

lemma not_in_filter_strs:
  "not_in_filter (map JStr pool) (JArr (map JStr used)) = Inr (map JStr (filter (\<lambda>t. t \<notin> set used) pool))"
  by (induction pool) (simp_all add: list_ex_py_eq_str)

lemma choice_strs:
  "xs \<noteq> [] \<Longrightarrow> \<exists>m. choice (JArr (map JStr xs)) r = Inr (JStr m) \<and> m \<in> set xs"
  by (rule exI [of _ "xs ! (r mod length xs)"]) simp

lemma selector_strs:
  "selector (JArr (map JStr pool)) (JArr (map JStr used)) r s =
     (let avail = filter (\<lambda>t. t \<notin> set used) pool;
          available = JArr (map JStr (if avail = [] then pool else avail))
      in case choice available r of
           Inl e \<Rightarrow> (Inl e, if avail = [] then emit [Print Resetting] s else s)
         | Inr t \<Rightarrow>
             (Inr \<lparr>selected_tweet = t,
                   used_after = JArr (map JStr (if avail = [] then [] else used)),
                   available_tweets = available\<rparr>,
              if avail = [] then emit [Print Resetting] s else s))"
  by (simp add: selector_def not_in_filter_strs Let_def)

text \<open>
  Claim C1. For every pool and used set (sequences of strs, the pool not empty, as the
  caller has checked), the selector computes the available pool as the pool filtered to the
  elements that are not in the used set; when that is empty it resets the used set to the
  empty sequence and takes the full pool as available pool; the element drawn is a member
  of this available pool, whatever the random source gives.
\<close>

theorem selector_draws_from_available:
  assumes "pool \<noteq> []"
  shows "\<exists>m. fst (selector (JArr (map JStr pool)) (JArr (map JStr used)) r s) =
           Inr \<lparr>selected_tweet = JStr m,
                used_after = JArr (map JStr (if filter (\<lambda>t. t \<notin> set used) pool = [] then [] else used)),
                available_tweets = JArr (map JStr (if filter (\<lambda>t. t \<notin> set used) pool = [] then pool
                                                   else filter (\<lambda>t. t \<notin> set used) pool))\<rparr>
         \<and> m \<in> set (if filter (\<lambda>t. t \<notin> set used) pool = [] then pool
                     else filter (\<lambda>t. t \<notin> set used) pool)"
proof -
  define avail where "avail = (if filter (\<lambda>t. t \<notin> set used) pool = [] then pool
                                else filter (\<lambda>t. t \<notin> set used) pool)"
  have "avail \<noteq> []" using assms by (simp add: avail_def)
  then obtain m where m: "choice (JArr (map JStr avail)) r = Inr (JStr m)" "m \<in> set avail"
    using choice_strs by blast
  have "fst (selector (JArr (map JStr pool)) (JArr (map JStr used)) r s) =
           Inr \<lparr>selected_tweet = JStr m,
                used_after = JArr (map JStr (if filter (\<lambda>t. t \<notin> set used) pool = [] then [] else used)),
                available_tweets = JArr (map JStr avail)\<rparr>"
    using m(1) unfolding selector_strs avail_def Let_def by (simp split: if_splits)
  then show ?thesis using m(2) unfolding avail_def by blast
qed

theorem selector_draws_from_available_witness:
  "\<exists>m. fst (selector (JArr [JStr (str ''A''), JStr (str ''B'')]) (JArr [JStr (str ''A''), JStr (str ''B'')]) 3
             \<lparr>backing_file = None, trace = []\<rparr>) =
           Inr \<lparr>selected_tweet = JStr m, used_after = JArr [],
                available_tweets = JArr [JStr (str ''A''), JStr (str ''B'')]\<rparr>
         \<and> m \<in> {str ''A'', str ''B''}"
  using selector_draws_from_available [of "[str ''A'', str ''B'']" "[str ''A'', str ''B'']" 3
      "\<lparr>backing_file = None, trace = []\<rparr>"]
  by simp

text \<open>
  Claim C2. In every run in which at least one element of the pool is not yet in the used
  set, the selected message is not in the used set (and the used set is kept as it is); in
  particular, with pool \<open>["A", "B"]\<close> and used set \<open>["A"]\<close> the selector chooses \<open>"B"\<close>
  for every value of the random source.
\<close>

theorem no_repeat_before_exhaustion:
  "((\<exists>t\<in>set pool. t \<notin> set used) \<longrightarrow>
      (\<exists>m. fst (selector (JArr (map JStr pool)) (JArr (map JStr used)) r s) =
             Inr \<lparr>selected_tweet = JStr m, used_after = JArr (map JStr used),
                  available_tweets = JArr (map JStr (filter (\<lambda>t. t \<notin> set used) pool))\<rparr>
           \<and> m \<in> set pool \<and> m \<notin> set used))
   \<and> fst (selector (JArr [JStr (str ''A''), JStr (str ''B'')]) (JArr [JStr (str ''A'')]) r s) =
       Inr \<lparr>selected_tweet = JStr (str ''B''), used_after = JArr [JStr (str ''A'')],
            available_tweets = JArr [JStr (str ''B'')]\<rparr>"
proof (intro conjI impI)
  assume ex: "\<exists>t\<in>set pool. t \<notin> set used"
  let ?c = "filter (\<lambda>t. t \<notin> set used) pool"
  from ex have ne: "?c \<noteq> []" by (simp add: filter_empty_conv)
  then obtain m where m: "choice (JArr (map JStr ?c)) r = Inr (JStr m)" "m \<in> set ?c"
    using choice_strs by blast
  have "fst (selector (JArr (map JStr pool)) (JArr (map JStr used)) r s) =
             Inr \<lparr>selected_tweet = JStr m, used_after = JArr (map JStr used),
                  available_tweets = JArr (map JStr ?c)\<rparr>"
    using m(1) ne unfolding selector_strs Let_def by simp
  moreover have "m \<in> set pool" "m \<notin> set used" using m(2) by simp_all
  ultimately show "\<exists>m. fst (selector (JArr (map JStr pool)) (JArr (map JStr used)) r s) =
             Inr \<lparr>selected_tweet = JStr m, used_after = JArr (map JStr used),
                  available_tweets = JArr (map JStr ?c)\<rparr>
           \<and> m \<in> set pool \<and> m \<notin> set used" by blast
next
  have "str ''A'' \<noteq> str ''B''" by (simp add: str_def)
  then show "fst (selector (JArr [JStr (str ''A''), JStr (str ''B'')]) (JArr [JStr (str ''A'')]) r s) =
       Inr \<lparr>selected_tweet = JStr (str ''B''), used_after = JArr [JStr (str ''A'')],
            available_tweets = JArr [JStr (str ''B'')]\<rparr>"
    by (simp add: selector_def)
qed

theorem no_repeat_before_exhaustion_witness:
  "\<exists>m. fst (selector (JArr [JStr (str ''A''), JStr (str ''B''), JStr (str ''C'')]) (JArr [JStr (str ''B'')]) 4
            \<lparr>backing_file = None, trace = []\<rparr>) =
          Inr \<lparr>selected_tweet = JStr m, used_after = JArr [JStr (str ''B'')],
               available_tweets = JArr [JStr (str ''A''), JStr (str ''C'')]\<rparr>
        \<and> m \<noteq> str ''B''"
  using no_repeat_before_exhaustion [of "[str ''A'', str ''B'', str ''C'']" "[str ''B'']" 4
      "\<lparr>backing_file = None, trace = []\<rparr>"]
  by (auto simp add: str_def)

section \<open>The run\<close>

lemmas step_defs = load_tweets_def save_used_tweets_def authenticate_twitter_def post_tweet_def
  create_sample_tweets_file_def emit_def


lemma backing_file_selector: "backing_file (snd (selector tweets used r s)) = backing_file s"
  by (simp add: selector_def Let_def emit_def split: sum.splits)




text \<open>The run up to the selection.\<close>

lemma main_missing:
  "filter (not_getenv w) required_vars \<noteq> [] \<Longrightarrow>
   main w f = (Missing_env,
     \<lparr>backing_file = f,
      trace = [Print (Bot_running (now w)), Print Missing_header]
              @ map (\<lambda>var. Print (Missing_var var)) (filter (not_getenv w) required_vars)
              @ [Print Missing_footer]\<rparr>)"
  by (simp add: main_def Let_def emit_def)

lemma main_absent:
  "filter (not_getenv w) required_vars = [] \<Longrightarrow>
   main w None = (No_tweets,
     \<lparr>backing_file = Some (Json sample_data),
      trace = [Print (Bot_running (now w)), File_read, Print Not_found_creating,
               File_write sample_data, Print Created_sample, Print No_tweets_found]\<rparr>)"
  by (simp add: main_def Let_def step_defs)

lemma main_not_utf8:
  "filter (not_getenv w) required_vars = [] \<Longrightarrow>
   main w (Some Not_utf8) = (Crashed UnicodeDecodeError,
     \<lparr>backing_file = Some Not_utf8, trace = [Print (Bot_running (now w)), File_read]\<rparr>)"
  by (simp add: main_def Let_def step_defs)

lemma main_not_json:
  "filter (not_getenv w) required_vars = [] \<Longrightarrow>
   main w (Some Not_json) = (No_tweets,
     \<lparr>backing_file = Some Not_json,
      trace = [Print (Bot_running (now w)), File_read, Print Invalid_json,
               Print No_tweets_found]\<rparr>)"
  by (simp add: main_def Let_def step_defs)

lemma main_not_dict:
  "filter (not_getenv w) required_vars = [] \<Longrightarrow> \<forall>kvs. d \<noteq> JObj kvs \<Longrightarrow>
   main w (Some (Json d)) = (Crashed AttributeError,
     \<lparr>backing_file = Some (Json d), trace = [Print (Bot_running (now w)), File_read]\<rparr>)"
  by (cases d) (simp_all add: main_def Let_def step_defs)

lemma main_no_tweets:
  "filter (not_getenv w) required_vars = [] \<Longrightarrow>
   \<not> truthy (dict_get kvs (str ''tweets'') (JArr [])) \<Longrightarrow>
   main w (Some (Json (JObj kvs))) = (No_tweets,
     \<lparr>backing_file = Some (Json (JObj kvs)),
      trace = [Print (Bot_running (now w)), File_read, Print No_tweets_found]\<rparr>)"
  by (simp add: main_def Let_def step_defs)

lemma main_loaded:
  "filter (not_getenv w) required_vars = [] \<Longrightarrow>
   truthy (dict_get kvs (str ''tweets'') (JArr [])) \<Longrightarrow>
   main w (Some (Json (JObj kvs))) =
     (case selector (dict_get kvs (str ''tweets'') (JArr []))
             (dict_get kvs (str ''used_tweets'') (JArr [])) (rand w)
             \<lparr>backing_file = Some (Json (JObj kvs)),
              trace = [Print (Bot_running (now w)), File_read]\<rparr> of
        (Inl e, s2) \<Rightarrow> (Crashed e, s2)
      | (Inr sel, s2) \<Rightarrow> publish_and_save w sel s2)"
  by (simp add: main_def Let_def load_tweets_def emit_def publish_and_save_def
      split: prod.split sum.split)


lemma publish_and_save_cases:
  "publish_and_save w sel s2 =
     (let c = Client (module_credentials w) in
      case get_me w c of
        Inl e \<Rightarrow>
          (Auth_failed, emit [Net_get_me, Print (Authentication_failed e)] s2)
      | Inr username \<Rightarrow>
          (let s3 = emit [Net_get_me, Print (Authenticated_as username),
                          Net_create_tweet (selected_tweet sel)] s2 in
           case create_tweet w c (selected_tweet sel) of
             Create_raises e \<Rightarrow>
               (Post_failed, emit [Print (Error_posting e), Print Failed_to_post] s3)
           | Created_without_id e \<Rightarrow>
               (Post_failed,
                emit [Print (Tweet_posted (selected_tweet sel)), Print (Error_posting e),
                      Print Failed_to_post] s3)
           | Created i \<Rightarrow>
               (let s4 = emit [Print (Tweet_posted (selected_tweet sel)), Print (Tweet_id i)] s3 in
                case py_append (used_after sel) (selected_tweet sel) of
                  Inl e \<Rightarrow> (Crashed e, s4)
                | Inr used_tweets2 \<Rightarrow>
                    (case save_used_tweets used_tweets2 s4 of
                       (Inl e, s5) \<Rightarrow> (Crashed e, s5)
                     | (Inr u, s5) \<Rightarrow> (Done, emit [Print Marked_used] s5)))))"
  by (simp add: publish_and_save_def authenticate_twitter_def post_tweet_def emit_def Let_def
      split: sum.split tweet_response.split)

lemma selector_state:
  "selector tweets used r s = (res, s2) \<Longrightarrow>
   backing_file s2 = backing_file s \<and>
   (trace s2 = trace s \<or> trace s2 = trace s @ [Print Resetting])"
  by (auto simp add: selector_def Let_def emit_def split: sum.splits if_splits)




lemma publish_and_save_failed:
  assumes "fst (publish_and_save w sel s2) = Auth_failed \<or> fst (publish_and_save w sel s2) = Post_failed"
  shows "backing_file (snd (publish_and_save w sel s2)) = backing_file s2
       \<and> (\<exists>es. trace (snd (publish_and_save w sel s2)) = trace s2 @ es \<and> (\<forall>j. File_write j \<notin> set es))"
  using assms
  by (auto simp add: publish_and_save_cases Let_def emit_def
      split: sum.splits tweet_response.splits prod.splits)

text \<open>
  Claim C4. In every run in which authentication fails (\<open>authenticate_twitter\<close> returns no
  client) or the publish call fails (\<open>post_tweet\<close> returns \<open>False\<close>), nothing is written:
  the state writer is not invoked, the file is what it was before the run, and so the
  selected message is not marked as used.
\<close>

theorem failure_leaves_file:
  assumes "fst (main w f) = Auth_failed \<or> fst (main w f) = Post_failed"
  shows "backing_file (snd (main w f)) = f
       \<and> (\<forall>j. File_write j \<notin> set (trace (snd (main w f))))"
proof -
  have env: "filter (not_getenv w) required_vars = []"
    using assms main_missing [of w f] by (cases "filter (not_getenv w) required_vars = []") auto
  obtain kvs where f: "f = Some (Json (JObj kvs))"
  proof (cases f)
    case None
    then show ?thesis using assms main_absent [OF env] by simp
  next
    case (Some c)
    show ?thesis
    proof (cases c)
      case Not_utf8
      then show ?thesis using assms Some main_not_utf8 [OF env] by simp
    next
      case Not_json
      then show ?thesis using assms Some main_not_json [OF env] by simp
    next
      case (Json d)
      show ?thesis
      proof (cases "\<exists>kvs. d = JObj kvs")
        case True
        then show ?thesis using Some Json that by blast
      next
        case False
        then show ?thesis using assms Some Json main_not_dict [OF env, of d] by simp
      qed
    qed
  qed
  let ?tweets = "dict_get kvs (str ''tweets'') (JArr [])"
  let ?used = "dict_get kvs (str ''used_tweets'') (JArr [])"
  let ?s1 = "\<lparr>backing_file = Some (Json (JObj kvs)),
              trace = [Print (Bot_running (now w)), File_read]\<rparr>"
  have tr: "truthy ?tweets"
    using assms f main_no_tweets [OF env, of kvs] by (cases "truthy ?tweets") auto
  obtain res s2 where sel: "selector ?tweets ?used (rand w) ?s1 = (res, s2)"
    by (cases "selector ?tweets ?used (rand w) ?s1")
  from selector_state [OF sel]
  have s2: "backing_file s2 = f" "\<forall>j. File_write j \<notin> set (trace s2)"
    using f by auto
  show ?thesis
  proof (cases res)
    case (Inl e)
    then show ?thesis using assms f sel main_loaded [OF env tr] by simp
  next
    case (Inr chosen)
    then have m: "main w f = publish_and_save w chosen s2"
      using f sel main_loaded [OF env tr] by simp
    from publish_and_save_failed [of w chosen s2] assms m s2 show ?thesis by auto
  qed
qed

theorem failure_leaves_file_witness:
  "fst (main (example_world\<lparr>get_me := (\<lambda>c. Inl (str ''401 Unauthorized''))\<rparr>) example_file) = Auth_failed
   \<and> backing_file (snd (main (example_world\<lparr>get_me := (\<lambda>c. Inl (str ''401 Unauthorized''))\<rparr>) example_file))
       = example_file
   \<and> File_write (JObj []) \<notin> set (trace (snd (main (example_world\<lparr>get_me := (\<lambda>c. Inl (str ''401 Unauthorized''))\<rparr>) example_file)))"
proof -
  let ?w = "example_world\<lparr>get_me := (\<lambda>c. Inl (str ''401 Unauthorized''))\<rparr>"
  have "fst (main ?w example_file) = Auth_failed"
    by (simp add: main_def Let_def step_defs selector_def example_world_def example_environ_def
        example_file_def required_vars_def not_getenv_def dict_get_def str_def)
  then show ?thesis using failure_leaves_file [of ?w example_file] by blast
qed





section \<open>The loader\<close>

text \<open>A file whose text is not JSON: the loader reports it and returns two empty lists,
  and the run stops at the check of the pool (\<open>main_not_json\<close>).\<close>

lemma load_tweets_invalid_json:
  "backing_file s = Some Not_json \<Longrightarrow>
   load_tweets s = (Inr (JArr [], JArr []), emit [File_read, Print Invalid_json] s)"
  by (simp add: load_tweets_def emit_def Let_def)

lemma example_environ_complete: "filter (not_getenv example_world) required_vars = []"
  by (simp add: example_world_def example_environ_def required_vars_def not_getenv_def str_def)

text \<open>
  Claim C5 says that for every file that exists but does not hold valid structured data the
  loader reports the problem and returns two empty sequences. On a file whose bytes are not
  UTF-8 the loader does not return: the UnicodeDecodeError raised while reading is caught
  by neither handler, and the run ends with it.
\<close>

theorem load_tweets_undecodable_file:
  "fst (load_tweets \<lparr>backing_file = Some Not_utf8, trace = []\<rparr>) = Inl UnicodeDecodeError
   \<and> fst (main example_world (Some Not_utf8)) = Crashed UnicodeDecodeError"
  by (simp add: load_tweets_def emit_def Let_def main_not_utf8 [OF example_environ_complete])

text \<open>
  Claim C6. Invoking the loader when the file is absent creates the file with the fixed
  default pool of 8 messages and an empty used set, and that call returns two empty
  sequences: the file just created is not read again.
\<close>

theorem load_tweets_bootstrap:
  assumes "backing_file s = None"
  shows "load_tweets s =
           (Inr (JArr [], JArr []),
            \<lparr>backing_file = Some (Json sample_data),
             trace = trace s @ [File_read, Print Not_found_creating, File_write sample_data,
                                Print Created_sample]\<rparr>)
       \<and> (\<exists>ts. field (Some (Json sample_data)) (str ''tweets'') = Some (JArr (map JStr ts))
                \<and> length ts = 8 \<and> distinct ts)
       \<and> field (Some (Json sample_data)) (str ''used_tweets'') = Some (JArr [])
       \<and> (\<exists>a b. sample_data = JObj [(str ''tweets'', a), (str ''used_tweets'', b)])"
proof -
  have "load_tweets s =
           (Inr (JArr [], JArr []),
            \<lparr>backing_file = Some (Json sample_data),
             trace = trace s @ [File_read, Print Not_found_creating, File_write sample_data,
                                Print Created_sample]\<rparr>)"
    using assms by (simp add: load_tweets_def create_sample_tweets_file_def emit_def Let_def)
  moreover have "\<exists>ts. field (Some (Json sample_data)) (str ''tweets'') = Some (JArr (map JStr ts))
                \<and> length ts = 8 \<and> distinct ts"
    unfolding sample_data_def field_def
    by (rule exI [of _ "[[240, 376, 338, 376] @ str '' Starting the day with gratitude! What are you thankful for today?'',
         [240, 376, 8217, 161] @ str '' Remember: Progress, not perfection. Every small step counts!'',
         [240, 376, 353, 8364] @ str '' Innovation happens when we dare to think differently.'',
         [240, 376, 338, 177] @ str '' Growth mindset: Challenges are opportunities in disguise.'',
         [226, 732, 8226] @ str '' Good morning! May your coffee be strong and your Monday be short.'',
         [240, 376, 381, 175] @ str '' Focus on what you can control, let go of what you can'' @ [39]
               @ str ''t.'',
         [240, 376, 8220, 353] @ str '' Learning something new every day keeps the mind sharp!'',
         [240, 376, 338, 710] @ str '' After every storm comes a rainbow. Keep pushing forward!'']"])
       (simp add: str_def)
  moreover have "field (Some (Json sample_data)) (str ''used_tweets'') = Some (JArr [])"
    by (simp add: sample_data_def field_def str_def)
  moreover have "\<exists>a b. sample_data = JObj [(str ''tweets'', a), (str ''used_tweets'', b)]"
    by (simp add: sample_data_def)
  ultimately show ?thesis by blast
qed

theorem load_tweets_bootstrap_witness:
  "load_tweets \<lparr>backing_file = None, trace = []\<rparr> =
     (Inr (JArr [], JArr []),
      \<lparr>backing_file = Some (Json sample_data),
       trace = [File_read, Print Not_found_creating, File_write sample_data, Print Created_sample]\<rparr>)"
  using load_tweets_bootstrap [of "\<lparr>backing_file = None, trace = []\<rparr>"] by simp

section \<open>The check of the environment\<close>

text \<open>
  Claim C7. In every environment in which at least one of the five required variables is
  absent, the entry point prints the name of each missing variable and stops before any
  read or write of the file and before any call of the remote service: the file is what it
  was and the run consists of printed lines only.
\<close>

theorem missing_credentials_abort:
  assumes "v \<in> set required_vars" and "environ w v = None"
  shows "main w f =
           (Missing_env,
            \<lparr>backing_file = f,
             trace = [Print (Bot_running (now w)), Print Missing_header]
                     @ map (\<lambda>var. Print (Missing_var var)) (filter (not_getenv w) required_vars)
                     @ [Print Missing_footer]\<rparr>)
       \<and> (\<forall>u\<in>set required_vars. environ w u = None \<longrightarrow>
              Print (Missing_var u) \<in> set (trace (snd (main w f))))
       \<and> (\<forall>e\<in>set (trace (snd (main w f))). \<exists>m. e = Print m)"
proof -
  have "not_getenv w v" using assms by (simp add: not_getenv_def)
  then have ne: "filter (not_getenv w) required_vars \<noteq> []"
    using assms(1) by (auto simp add: filter_empty_conv)
  note m = main_missing [OF ne, of f]
  have "\<forall>u\<in>set required_vars. environ w u = None \<longrightarrow>
              Print (Missing_var u) \<in> set (trace (snd (main w f)))"
    by (simp add: m not_getenv_def)
  moreover have "\<forall>e\<in>set (trace (snd (main w f))). \<exists>m. e = Print m"
    by (auto simp add: m)
  ultimately show ?thesis using m by blast
qed

theorem missing_credentials_abort_witness:
  "main (example_world\<lparr>environ := example_environ(str ''TWITTER_BEARER_TOKEN'' := None)\<rparr>) example_file =
     (Missing_env,
      \<lparr>backing_file = example_file,
       trace = [Print (Bot_running (str ''2024-01-01 09:00:00'')), Print Missing_header,
                Print (Missing_var (str ''TWITTER_BEARER_TOKEN'')), Print Missing_footer]\<rparr>)"
proof -
  let ?w = "example_world\<lparr>environ := example_environ(str ''TWITTER_BEARER_TOKEN'' := None)\<rparr>"
  have a: "str ''TWITTER_BEARER_TOKEN'' \<in> set required_vars" by (simp add: required_vars_def)
  have b: "environ ?w (str ''TWITTER_BEARER_TOKEN'') = None" by simp
  have c: "filter (not_getenv ?w) required_vars = [str ''TWITTER_BEARER_TOKEN'']"
    by (simp add: example_environ_def required_vars_def not_getenv_def str_def)
  note t = missing_credentials_abort [OF a b, of example_file, unfolded c]
  have n: "now ?w = str ''2024-01-01 09:00:00''" by (simp add: example_world_def)
  from t show ?thesis unfolding n by simp
qed

text \<open>
  Claim C9. A required variable that is set to the empty string is treated as an absent
  one: the presence check is the truth value of \<open>os.getenv(var)\<close>, so the entry point
  lists the variable as missing and aborts, and the run is the same as with the variable
  unset.
\<close>

theorem empty_credential_is_missing:
  assumes "v \<in> set required_vars" and "environ w v = Some []"
  shows "fst (main w f) = Missing_env
       \<and> Print (Missing_var v) \<in> set (trace (snd (main w f)))
       \<and> backing_file (snd (main w f)) = f
       \<and> main w f = main (w\<lparr>environ := (environ w)(v := None)\<rparr>) f"
proof -
  let ?w' = "w\<lparr>environ := (environ w)(v := None)\<rparr>"
  have same: "not_getenv ?w' = not_getenv w"
    using assms by (auto simp add: not_getenv_def fun_eq_iff)
  have "not_getenv w v" using assms by (simp add: not_getenv_def)
  then have ne: "filter (not_getenv w) required_vars \<noteq> []"
    using assms(1) by (auto simp add: filter_empty_conv)
  then have ne': "filter (not_getenv ?w') required_vars \<noteq> []" by (simp add: same)
  note m = main_missing [OF ne, of f] and m' = main_missing [OF ne', of f]
  have e: "main w f = main ?w' f" unfolding m m' by (simp add: same)
  have p: "Print (Missing_var v) \<in> set (trace (snd (main w f)))"
    using assms by (simp add: m not_getenv_def)
  have o: "fst (main w f) = Missing_env" "backing_file (snd (main w f)) = f"
    by (simp_all add: m)
  from o p e show ?thesis by blast
qed

theorem empty_credential_is_missing_witness:
  "fst (main (example_world\<lparr>environ := example_environ(str ''TWITTER_API_KEY'' \<mapsto> [])\<rparr>) example_file)
     = Missing_env
   \<and> Print (Missing_var (str ''TWITTER_API_KEY''))
       \<in> set (trace (snd (main (example_world\<lparr>environ := example_environ(str ''TWITTER_API_KEY'' \<mapsto> [])\<rparr>)
                              example_file)))
   \<and> backing_file (snd (main (example_world\<lparr>environ := example_environ(str ''TWITTER_API_KEY'' \<mapsto> [])\<rparr>)
                              example_file)) = example_file"
proof -
  let ?w = "example_world\<lparr>environ := example_environ(str ''TWITTER_API_KEY'' \<mapsto> [])\<rparr>"
  have a: "str ''TWITTER_API_KEY'' \<in> set required_vars" by (simp add: required_vars_def)
  have b: "environ ?w (str ''TWITTER_API_KEY'') = Some []" by simp
  from empty_credential_is_missing [OF a b, of example_file] show ?thesis by blast
qed

section \<open>The state writer\<close>








end
